theory Spec2Isabelle
  imports Complex_Main "HOL-Library.Monad_Syntax"
begin

section \<open>Data model of \<^verbatim>\<open>ros_filter_utilities.cpp\<close>\<close>

text \<open>
  The scalar type \<^verbatim>\<open>tf2Scalar\<close> (a C++ \<^verbatim>\<open>double\<close>) is the type parameter \<open>'d\<close>
  throughout: the functions of this file only copy scalars, and every operation that
  computes with them belongs to a library outside the file and is taken as a parameter
  (record \<open>externals\<close> below). Only \<^verbatim>\<open>setIdentity\<close> needs the constants 0 and 1.
\<close>

subsection \<open>tf2 linear algebra types\<close>

datatype 'd Vector3 = Vector3 (getX: 'd) (getY: 'd) (getZ: 'd)

datatype 'd Quaternion = Quaternion (quat_x: 'd) (quat_y: 'd) (quat_z: 'd) (quat_w: 'd)

datatype 'd Matrix3x3 = Matrix3x3 (row0: "'d Vector3") (row1: "'d Vector3") (row2: "'d Vector3")

text \<open>\<^verbatim>\<open>tf2::Transform\<close>: a rotation matrix \<^verbatim>\<open>m_basis\<close> and a translation \<^verbatim>\<open>m_origin\<close>.\<close>

record 'd Transform =
  m_basis :: "'d Matrix3x3"
  m_origin :: "'d Vector3"

subsection \<open>Messages\<close>

text \<open>\<^verbatim>\<open>geometry_msgs::msg::Transform\<close> and \<^verbatim>\<open>geometry_msgs::msg::TransformStamped\<close>.\<close>

record 'd msg_Transform =
  translation :: "'d Vector3"
  rotation :: "'d Quaternion"

record 'd TransformStamped =
  stamp :: int
  frame_id :: string
  child_frame_id :: string
  transform :: "'d msg_Transform"

subsection \<open>Time\<close>

text \<open>
  \<^verbatim>\<open>rclcpp::Time\<close> and \<^verbatim>\<open>rclcpp::Duration\<close> hold a count of nanoseconds;
  \<^verbatim>\<open>tf2::TimePoint\<close> and \<^verbatim>\<open>tf2::Duration\<close> are \<^verbatim>\<open>std::chrono\<close> values in
  nanoseconds, and \<^verbatim>\<open>tf2::TimePointZero\<close> is the time point 0, which the buffer reads
  as "the latest available".
\<close>

datatype rclcpp_Time = Time (Time_nanoseconds: int)

datatype rclcpp_Duration = Duration_ns (Duration_nanoseconds: int)

text \<open>
  The constructor \<^verbatim>\<open>rclcpp::Duration(int32_t seconds, uint32_t nanoseconds)\<close>. With
  \<open>seconds\<close> a 32-bit and \<open>nanoseconds\<close> an unsigned 32-bit value the sum fits the
  64-bit count, so no wrap-around is written.
\<close>

definition Duration :: "int \<Rightarrow> int \<Rightarrow> rclcpp_Duration" where
  "Duration seconds nanoseconds = Duration_ns (seconds * 1000000000 + nanoseconds)"

type_synonym TimePoint = int

type_synonym tf2_Duration = int

definition TimePointZero :: TimePoint where
  "TimePointZero = 0"

subsection \<open>External collaborators\<close>

text \<open>
  Functions the file calls and does not define, all of them floating-point computations:
  \<^verbatim>\<open>filter_utilities::toSec\<close> (both overloads), \<^verbatim>\<open>tf2::timeFromSec\<close>,
  \<^verbatim>\<open>tf2::durationFromSec\<close>, \<^verbatim>\<open>tf2::Quaternion::setRPY\<close>, the conversions between a
  quaternion and a rotation matrix (\<^verbatim>\<open>tf2::Matrix3x3::setRotation\<close>, also the constructor
  \<^verbatim>\<open>Matrix3x3(quat)\<close>, and \<^verbatim>\<open>Matrix3x3::getRotation\<close>) and \<^verbatim>\<open>Matrix3x3::getRPY\<close>.
  They are parameters of the model.
\<close>

record 'd externals =
  toSec_Time :: "rclcpp_Time \<Rightarrow> 'd"
  toSec_Duration :: "rclcpp_Duration \<Rightarrow> 'd"
  timeFromSec :: "'d \<Rightarrow> TimePoint"
  durationFromSec :: "'d \<Rightarrow> tf2_Duration"
  Quaternion_setRPY :: "'d \<Rightarrow> 'd \<Rightarrow> 'd \<Rightarrow> 'd Quaternion"
  Matrix3x3_setRotation :: "'d Quaternion \<Rightarrow> 'd Matrix3x3"
  Matrix3x3_getRotation :: "'d Matrix3x3 \<Rightarrow> 'd Quaternion"
  Matrix3x3_getRPY :: "'d Matrix3x3 \<Rightarrow> 'd \<times> 'd \<times> 'd"

text \<open>
  The transform store \<^verbatim>\<open>tf2_ros::Buffer\<close>, read through its two queries.
  \<^verbatim>\<open>lookupTransform\<close> either returns a stamped transform or throws a
  \<^verbatim>\<open>tf2::TransformException\<close>; the two queries are independent functions, as the
  \<^verbatim>\<open>try\<close>/\<^verbatim>\<open>catch\<close> around each lookup of the source expects. The \<^verbatim>\<open>error_msg\<close>
  that \<^verbatim>\<open>canTransform\<close> fills is never read by the source and is left out.
\<close>

datatype TransformException = TransformException string

record 'd Buffer =
  canTransform :: "string \<Rightarrow> string \<Rightarrow> TimePoint \<Rightarrow> tf2_Duration \<Rightarrow> bool"
  lookupTransform ::
    "string \<Rightarrow> string \<Rightarrow> TimePoint \<Rightarrow> tf2_Duration \<Rightarrow> TransformException + 'd TransformStamped"

text \<open>
  What a call does to the outside is recorded as the list of the calls it makes, in
  order: the queries to the buffer, and the uses of
  \<^verbatim>\<open>RCLCPP_WARN_STREAM_THROTTLE(logger, clock, period_ms, message)\<close>, the rate-limited
  warning of the logging library (its limiter is the library's, keyed by the call site).
\<close>

datatype call =
    CanTransform string string TimePoint tf2_Duration
  | LookupTransform string string TimePoint tf2_Duration
  | RCLCPP_WARN_STREAM_THROTTLE nat string

fun is_warning :: "call \<Rightarrow> bool" where
  "is_warning (RCLCPP_WARN_STREAM_THROTTLE period msg) = True"
| "is_warning (CanTransform t s tp d) = False"
| "is_warning (LookupTransform t s tp d) = False"

text \<open>
  The result of \<^verbatim>\<open>lookupTransformSafe\<close>: the returned \<^verbatim>\<open>bool\<close>, the value of the output
  parameter \<^verbatim>\<open>target_frame_trans\<close> after the call, and the calls made.
\<close>

record 'd outcome =
  ret :: bool
  trans_out :: "'d Transform"
  calls :: "call list"

section \<open>Operations of \<^verbatim>\<open>tf2::Transform\<close> that only store\<close>

definition Matrix3x3_identity :: "'d::{zero,one} Matrix3x3" where
  "Matrix3x3_identity = Matrix3x3 (Vector3 1 0 0) (Vector3 0 1 0) (Vector3 0 0 1)"

definition setIdentity :: "'d::{zero,one} Transform \<Rightarrow> 'd Transform" where
  "setIdentity t = t\<lparr>m_basis := Matrix3x3_identity, m_origin := Vector3 0 0 0\<rparr>"

definition setOrigin :: "'d Transform \<Rightarrow> 'd Vector3 \<Rightarrow> 'd Transform" where
  "setOrigin t origin = t\<lparr>m_origin := origin\<rparr>"

definition getOrigin :: "'d Transform \<Rightarrow> 'd Vector3" where
  "getOrigin t = m_origin t"

definition setRotation :: "'d externals \<Rightarrow> 'd Transform \<Rightarrow> 'd Quaternion \<Rightarrow> 'd Transform" where
  "setRotation ext t q = t\<lparr>m_basis := Matrix3x3_setRotation ext q\<rparr>"

definition getRotation :: "'d externals \<Rightarrow> 'd Transform \<Rightarrow> 'd Quaternion" where
  "getRotation ext t = Matrix3x3_getRotation ext (m_basis t)"

text \<open>
  \<^verbatim>\<open>tf2::fromMsg(const geometry_msgs::msg::Transform &, tf2::Transform &)\<close>: sets the
  origin and the rotation of the output from the message.
\<close>

definition fromMsg :: "'d externals \<Rightarrow> 'd msg_Transform \<Rightarrow> 'd Transform \<Rightarrow> 'd Transform" where
  "fromMsg ext msg out = setRotation ext (setOrigin out (translation msg)) (rotation msg)"

section \<open>\<^verbatim>\<open>lookupTransformSafe\<close>\<close>

text \<open>
  Source lines 131 to 204. The three \<^verbatim>\<open>if (!silent)\<close> blocks of the latest-available
  attempt (lines 179, 186 and 192) hold only a commented-out
  \<^verbatim>\<open>ROS_WARN_STREAM_THROTTLE\<close>: they do nothing, for either value of \<open>silent\<close>.
  \<open>latest\<close> is the code from line 166 on and \<open>failure\<close> the code from line 198 on, each
  given the calls made before it.
\<close>

definition lookupTransformSafe ::
  "'d::{zero,one} externals \<Rightarrow> 'd Buffer \<Rightarrow> string \<Rightarrow> string \<Rightarrow> rclcpp_Time \<Rightarrow>
   rclcpp_Duration \<Rightarrow> 'd Transform \<Rightarrow> bool \<Rightarrow> 'd outcome" where
  "lookupTransformSafe ext buffer target_frame source_frame time duration target_frame_trans silent =
    (if target_frame = source_frame then
       \<lparr>ret = True, trans_out = setIdentity target_frame_trans, calls = []\<rparr>
     else
       let time_tf = timeFromSec ext (toSec_Time ext time);
           duration_tf = durationFromSec ext (toSec_Duration ext duration);
           failure = (\<lambda>cs.
             \<lparr>ret = False, trans_out = target_frame_trans,
              calls = cs @
                (if \<not> silent then
                   [RCLCPP_WARN_STREAM_THROTTLE 3000
                      (''Could not transform from '' @ source_frame @ '' to '' @ target_frame)]
                 else [])\<rparr>);
           latest = (\<lambda>cs.
             if canTransform buffer target_frame source_frame TimePointZero duration_tf then
               (case lookupTransform buffer target_frame source_frame TimePointZero duration_tf of
                  Inr stamped \<Rightarrow>
                    \<lparr>ret = True,
                     trans_out = fromMsg ext (transform stamped) target_frame_trans,
                     calls = cs @
                       [CanTransform target_frame source_frame TimePointZero duration_tf,
                        LookupTransform target_frame source_frame TimePointZero duration_tf]\<rparr>
                | Inl ex \<Rightarrow>
                    failure (cs @
                       [CanTransform target_frame source_frame TimePointZero duration_tf,
                        LookupTransform target_frame source_frame TimePointZero duration_tf]))
             else
               failure (cs @ [CanTransform target_frame source_frame TimePointZero duration_tf]))
       in
         if canTransform buffer target_frame source_frame time_tf duration_tf then
           (case lookupTransform buffer target_frame source_frame time_tf duration_tf of
              Inr stamped \<Rightarrow>
                \<lparr>ret = True,
                 trans_out = fromMsg ext (transform stamped) target_frame_trans,
                 calls =
                   [CanTransform target_frame source_frame time_tf duration_tf,
                    LookupTransform target_frame source_frame time_tf duration_tf]\<rparr>
            | Inl ex \<Rightarrow>
                latest
                  [CanTransform target_frame source_frame time_tf duration_tf,
                   LookupTransform target_frame source_frame time_tf duration_tf])
         else
           latest [CanTransform target_frame source_frame time_tf duration_tf])"

text \<open>The overload without a tolerance, source lines 206 to 218.\<close>

definition lookupTransformSafe_no_duration ::
  "'d::{zero,one} externals \<Rightarrow> 'd Buffer \<Rightarrow> string \<Rightarrow> string \<Rightarrow> rclcpp_Time \<Rightarrow>
   'd Transform \<Rightarrow> bool \<Rightarrow> 'd outcome" where
  "lookupTransformSafe_no_duration ext buffer target_frame source_frame time target_frame_trans silent =
     lookupTransformSafe ext buffer target_frame source_frame time (Duration 0 0)
       target_frame_trans silent"

text \<open>
  What the buffer answers to the pair of queries the source makes for one time point:
  the stamped transform when \<^verbatim>\<open>canTransform\<close> holds and \<^verbatim>\<open>lookupTransform\<close> returns,
  nothing when \<^verbatim>\<open>canTransform\<close> fails or \<^verbatim>\<open>lookupTransform\<close> throws. The properties
  below are stated with it.
\<close>

definition relation_at ::
  "'d Buffer \<Rightarrow> string \<Rightarrow> string \<Rightarrow> TimePoint \<Rightarrow> tf2_Duration \<Rightarrow> 'd TransformStamped option" where
  "relation_at buffer target_frame source_frame tp d =
     (if canTransform buffer target_frame source_frame tp d then
        (case lookupTransform buffer target_frame source_frame tp d of
           Inr stamped \<Rightarrow> Some stamped
         | Inl ex \<Rightarrow> None)
      else None)"

definition warnings :: "'d outcome \<Rightarrow> call list" where
  "warnings r = filter is_warning (calls r)"

definition queries :: "'d outcome \<Rightarrow> call list" where
  "queries r = filter (\<lambda>c. \<not> is_warning c) (calls r)"

section \<open>The conversions between a state vector and a transform\<close>

text \<open>
  The members of \<^verbatim>\<open>enum StateMembers\<close> that the file uses. The enumeration is declared
  in \<^verbatim>\<open>filter_common.hpp\<close>, outside the file, so the index of each member in the state
  vector is a parameter \<open>idx\<close> of the two conversions.
\<close>

datatype StateMembers =
    StateMemberX | StateMemberY | StateMemberZ
  | StateMemberRoll | StateMemberPitch | StateMemberYaw

text \<open>
  \<^verbatim>\<open>Eigen::VectorXd\<close> is a list of scalars. \<^verbatim>\<open>state(i)\<close> asserts that \<open>i\<close> is within the
  vector; a failed assertion stops the program, which is the result \<open>None\<close>.
\<close>

definition coeff :: "'d list \<Rightarrow> nat \<Rightarrow> 'd option" where
  "coeff v i = (if i < length v then Some (v ! i) else None)"

definition assign_coeff :: "'d list \<Rightarrow> nat \<Rightarrow> 'd \<Rightarrow> 'd list option" where
  "assign_coeff v i a = (if i < length v then Some (v[i := a]) else None)"

text \<open>Source lines 220 to 226; the three output parameters are the returned triple.\<close>

definition quatToRPY :: "'d externals \<Rightarrow> 'd Quaternion \<Rightarrow> 'd \<times> 'd \<times> 'd" where
  "quatToRPY ext quat = Matrix3x3_getRPY ext (Matrix3x3_setRotation ext quat)"

text \<open>Source lines 228 to 240.\<close>

definition stateToTF ::
  "'d externals \<Rightarrow> (StateMembers \<Rightarrow> nat) \<Rightarrow> 'd list \<Rightarrow> 'd Transform \<Rightarrow> 'd Transform option" where
  "stateToTF ext idx state state_tf = do {
     x \<leftarrow> coeff state (idx StateMemberX);
     y \<leftarrow> coeff state (idx StateMemberY);
     z \<leftarrow> coeff state (idx StateMemberZ);
     let state_tf1 = setOrigin state_tf (Vector3 x y z);
     roll \<leftarrow> coeff state (idx StateMemberRoll);
     pitch \<leftarrow> coeff state (idx StateMemberPitch);
     yaw \<leftarrow> coeff state (idx StateMemberYaw);
     let quat = Quaternion_setRPY ext roll pitch yaw;
     Some (setRotation ext state_tf1 quat)
   }"

text \<open>
  Source lines 242 to 250. \<^verbatim>\<open>quatToRPY\<close> writes through the three references
  \<^verbatim>\<open>state(StateMemberRoll)\<close>, \<^verbatim>\<open>state(StateMemberPitch)\<close> and \<^verbatim>\<open>state(StateMemberYaw)\<close>;
  the order of these three writes matters only if two members share an index.
\<close>

definition TFtoState ::
  "'d externals \<Rightarrow> (StateMembers \<Rightarrow> nat) \<Rightarrow> 'd Transform \<Rightarrow> 'd list \<Rightarrow> 'd list option" where
  "TFtoState ext idx state_tf state = do {
     state1 \<leftarrow> assign_coeff state (idx StateMemberX) (getX (getOrigin state_tf));
     state2 \<leftarrow> assign_coeff state1 (idx StateMemberY) (getY (getOrigin state_tf));
     state3 \<leftarrow> assign_coeff state2 (idx StateMemberZ) (getZ (getOrigin state_tf));
     (roll, pitch, yaw) \<leftarrow> Some (quatToRPY ext (getRotation ext state_tf));
     state4 \<leftarrow> assign_coeff state3 (idx StateMemberRoll) roll;
     state5 \<leftarrow> assign_coeff state4 (idx StateMemberPitch) pitch;
     assign_coeff state5 (idx StateMemberYaw) yaw
   }"

text \<open>A state vector that has every member the conversions use.\<close>

definition has_pose_members :: "(StateMembers \<Rightarrow> nat) \<Rightarrow> 'd list \<Rightarrow> bool" where
  "has_pose_members idx state =
     (idx StateMemberX < length state \<and> idx StateMemberY < length state \<and>
      idx StateMemberZ < length state \<and> idx StateMemberRoll < length state \<and>
      idx StateMemberPitch < length state \<and> idx StateMemberYaw < length state)"

definition pose_indices :: "(StateMembers \<Rightarrow> nat) \<Rightarrow> nat set" where
  "pose_indices idx =
     {idx StateMemberX, idx StateMemberY, idx StateMemberZ,
      idx StateMemberRoll, idx StateMemberPitch, idx StateMemberYaw}"



section \<open>Values for the examples\<close>

text \<open>
  Stand-ins for the external functions, used only to run the examples: the scalar is an
  integer and a time in "seconds" is its count of nanoseconds, so the time conversions
  return their argument, and the four rotation functions only move their arguments
  around. Every general theorem below is proved for every value of the record.
\<close>

definition example_externals :: "int externals" where
  "example_externals =
     \<lparr>toSec_Time = Time_nanoseconds,
      toSec_Duration = Duration_nanoseconds,
      timeFromSec = (\<lambda>s. s),
      durationFromSec = (\<lambda>s. s),
      Quaternion_setRPY = (\<lambda>roll pitch yaw. Quaternion roll pitch yaw 1),
      Matrix3x3_setRotation = (\<lambda>q.
        Matrix3x3 (Vector3 (quat_x q) (quat_y q) (quat_z q)) (Vector3 (quat_w q) 0 0)
          (Vector3 0 0 0)),
      Matrix3x3_getRotation = (\<lambda>m.
        Quaternion (getX (row0 m)) (getY (row0 m)) (getZ (row0 m)) (getX (row1 m))),
      Matrix3x3_getRPY = (\<lambda>m. (getX (row0 m), getY (row0 m), getZ (row0 m)))\<rparr>"

text \<open>
  A buffer that relates \<open>odom\<close> and \<open>base_link\<close> by one transform stamped 10 s: at a
  requested time within the given duration of 10 s, and at \<open>TimePointZero\<close>.
\<close>

definition odom_stamped :: "int TransformStamped" where
  "odom_stamped =
     \<lparr>stamp = 10000000000, frame_id = ''odom'', child_frame_id = ''base_link'',
      transform = \<lparr>translation = Vector3 1 2 0, rotation = Quaternion 0 0 0 1\<rparr>\<rparr>"

definition odom_buffer :: "int Buffer" where
  "odom_buffer =
     \<lparr>canTransform = (\<lambda>t s tp d.
        t = ''odom'' \<and> s = ''base_link'' \<and> (tp = TimePointZero \<or> \<bar>tp - 10000000000\<bar> \<le> d)),
      lookupTransform = (\<lambda>t s tp d.
        if t = ''odom'' \<and> s = ''base_link'' \<and> (tp = TimePointZero \<or> \<bar>tp - 10000000000\<bar> \<le> d)
        then Inr odom_stamped
        else Inl (TransformException ''Lookup would require extrapolation''))\<rparr>"

definition empty_buffer :: "int Buffer" where
  "empty_buffer =
     \<lparr>canTransform = (\<lambda>t s tp d. False),
      lookupTransform = (\<lambda>t s tp d. Inl (TransformException ''frame does not exist''))\<rparr>"

definition old_trans :: "int Transform" where
  "old_trans =
     \<lparr>m_basis = Matrix3x3 (Vector3 0 1 0) (Vector3 1 0 0) (Vector3 0 0 1),
      m_origin = Vector3 7 8 9\<rparr>"

text \<open>A layout of the state vector and a state of fifteen entries.\<close>

fun example_idx :: "StateMembers \<Rightarrow> nat" where
  "example_idx StateMemberX = 0"
| "example_idx StateMemberY = 1"
| "example_idx StateMemberZ = 2"
| "example_idx StateMemberRoll = 3"
| "example_idx StateMemberPitch = 4"
| "example_idx StateMemberYaw = 5"

definition example_state :: "int list" where
  "example_state = [1, 2, 3, 4, 5, 6, 7, 8, 9, 10, 11, 12, 13, 14, 15]"

section \<open>Time conversions through a \<^verbatim>\<open>double\<close>\<close>

text \<open>
  Line 149 of the source turns the requested time into seconds held in a \<^verbatim>\<open>double\<close> and
  back into nanoseconds. A \<^verbatim>\<open>double\<close> is a significand of at most 53 bits times a power
  of two; \<open>round_double\<close> rounds an integer times a power of two to the nearest such
  value, ties to the even significand (no overflow and no subnormal values arise at the
  magnitudes used here).
\<close>

datatype double = Double (significand: int) (exponent: int)

instantiation double :: "{zero,one}"
begin

definition zero_double :: double where
  "zero_double = Double 0 0"

definition one_double :: double where
  "one_double = Double 1 0"

instance ..

end















section \<open>The rotation that tf2 builds, over the real numbers\<close>










section \<open>Properties of \<^verbatim>\<open>lookupTransformSafe\<close>\<close>

text \<open>Both writers of the output parameter replace it whole.\<close>

lemma fromMsg_overwrites:
  "fromMsg ext msg (out :: 'd Transform) =
     \<lparr>m_basis = Matrix3x3_setRotation ext (rotation msg), m_origin = translation msg\<rparr>"
  by (cases out) (simp add: fromMsg_def setRotation_def setOrigin_def)

lemma setIdentity_overwrites:
  "setIdentity (t :: 'd::{zero,one} Transform) =
     \<lparr>m_basis = Matrix3x3_identity, m_origin = Vector3 0 0 0\<rparr>"
  by (cases t) (simp add: setIdentity_def)

text \<open>
  C2. When the target frame equals the source frame, \<^verbatim>\<open>lookupTransformSafe\<close> returns
  \<open>True\<close> with the identity transform in the output parameter and makes no call at
  all, so the buffer is not consulted: whatever the buffer, the time, the tolerance, the
  previous value of the output parameter and the silent flag.
\<close>

theorem lookupTransformSafe_same_frame:
  "target_frame = source_frame \<Longrightarrow>
   lookupTransformSafe ext buffer target_frame source_frame time duration target_frame_trans silent =
     \<lparr>ret = True,
      trans_out = \<lparr>m_basis = Matrix3x3_identity, m_origin = Vector3 0 0 0\<rparr>,
      calls = []\<rparr>"
  by (simp add: lookupTransformSafe_def setIdentity_overwrites)

theorem lookupTransformSafe_same_frame_witness:
  "''base_link'' = ''base_link'' \<and>
   lookupTransformSafe example_externals empty_buffer ''base_link'' ''base_link''
     (Time 10000000000) (Duration 0 100000000) old_trans False =
     \<lparr>ret = True,
      trans_out = \<lparr>m_basis = Matrix3x3_identity, m_origin = Vector3 0 0 0\<rparr>,
      calls = []\<rparr>"
  using lookupTransformSafe_same_frame
    [of "''base_link''" "''base_link''" example_externals empty_buffer
        "Time 10000000000" "Duration 0 100000000" old_trans False]
  by simp






text \<open>
  What the code does when only the latest-available relation exists, for either value of
  \<open>silent\<close>: it returns \<open>True\<close> with that relation and logs nothing.
\<close>

lemma lookupTransformSafe_latest:
  assumes "target_frame \<noteq> source_frame"
    and "time_tf = timeFromSec ext (toSec_Time ext time)"
    and "duration_tf = durationFromSec ext (toSec_Duration ext duration)"
    and "relation_at buffer target_frame source_frame time_tf duration_tf = None"
    and "relation_at buffer target_frame source_frame TimePointZero duration_tf = Some stamped"
  shows "ret (lookupTransformSafe ext buffer target_frame source_frame time duration
            target_frame_trans silent) = True \<and>
         trans_out (lookupTransformSafe ext buffer target_frame source_frame time duration
            target_frame_trans silent) =
           \<lparr>m_basis = Matrix3x3_setRotation ext (rotation (transform stamped)),
            m_origin = translation (transform stamped)\<rparr> \<and>
         warnings (lookupTransformSafe ext buffer target_frame source_frame time duration
            target_frame_trans silent) = []"
  using assms
  by (simp add: lookupTransformSafe_def relation_at_def warnings_def fromMsg_overwrites
      Let_def split: if_splits sum.splits)

text \<open>
  C1. The buffer \<open>odom_buffer\<close> relates \<open>odom\<close> and \<open>base_link\<close> at 10 s only. Asked
  for 10.5 s with a duration of 0.1 s and \<open>silent = False\<close>, \<^verbatim>\<open>lookupTransformSafe\<close>
  finds no relation at the requested time, takes the latest-available one and returns
  \<open>True\<close> with it; the calls it makes are three queries to the buffer and no warning.
\<close>

theorem lookupTransformSafe_stale_no_warning:
  "relation_at odom_buffer ''odom'' ''base_link'' 10500000000 100000000 = None \<and>
   relation_at odom_buffer ''odom'' ''base_link'' TimePointZero 100000000 = Some odom_stamped \<and>
   lookupTransformSafe example_externals odom_buffer ''odom'' ''base_link''
     (Time 10500000000) (Duration 0 100000000) old_trans False =
     \<lparr>ret = True,
      trans_out =
        \<lparr>m_basis = Matrix3x3 (Vector3 0 0 0) (Vector3 1 0 0) (Vector3 0 0 0),
         m_origin = Vector3 1 2 0\<rparr>,
      calls =
        [CanTransform ''odom'' ''base_link'' 10500000000 100000000,
         CanTransform ''odom'' ''base_link'' 0 100000000,
         LookupTransform ''odom'' ''base_link'' 0 100000000]\<rparr> \<and>
   warnings (lookupTransformSafe example_externals odom_buffer ''odom'' ''base_link''
     (Time 10500000000) (Duration 0 100000000) old_trans False) = []"
  by (simp add: lookupTransformSafe_def relation_at_def warnings_def odom_buffer_def
      odom_stamped_def example_externals_def Duration_def TimePointZero_def
      fromMsg_overwrites Let_def)

text \<open>
  C4. For two different frames, when the buffer relates them neither at the requested
  time nor at \<open>TimePointZero\<close>, \<^verbatim>\<open>lookupTransformSafe\<close> returns \<open>False\<close>. If \<open>silent\<close>
  is set it logs nothing; otherwise it makes exactly one call of the rate-limited warning
  \<^verbatim>\<open>RCLCPP_WARN_STREAM_THROTTLE\<close>, with a period of 3000 ms and a message that holds the
  source frame and the target frame.
\<close>

theorem lookupTransformSafe_failure:
  assumes "target_frame \<noteq> source_frame"
    and "time_tf = timeFromSec ext (toSec_Time ext time)"
    and "duration_tf = durationFromSec ext (toSec_Duration ext duration)"
    and "relation_at buffer target_frame source_frame time_tf duration_tf = None"
    and "relation_at buffer target_frame source_frame TimePointZero duration_tf = None"
  shows "ret (lookupTransformSafe ext buffer target_frame source_frame time duration
            target_frame_trans silent) = False \<and>
         warnings (lookupTransformSafe ext buffer target_frame source_frame time duration
            target_frame_trans silent) =
           (if silent then []
            else [RCLCPP_WARN_STREAM_THROTTLE 3000
                    (''Could not transform from '' @ source_frame @ '' to '' @ target_frame)])"
  using assms
  by (simp add: lookupTransformSafe_def relation_at_def warnings_def Let_def
      split: if_splits sum.splits)

theorem lookupTransformSafe_failure_witness:
  "''odom'' \<noteq> ''base_link'' \<and>
   relation_at empty_buffer ''odom'' ''base_link'' 10000000000 100000000 = None \<and>
   relation_at empty_buffer ''odom'' ''base_link'' TimePointZero 100000000 = None \<and>
   ret (lookupTransformSafe example_externals empty_buffer ''odom'' ''base_link''
          (Time 10000000000) (Duration 0 100000000) old_trans False) = False \<and>
   warnings (lookupTransformSafe example_externals empty_buffer ''odom'' ''base_link''
          (Time 10000000000) (Duration 0 100000000) old_trans False) =
     [RCLCPP_WARN_STREAM_THROTTLE 3000 ''Could not transform from base_link to odom'']"
  using lookupTransformSafe_failure
    [of "''odom''" "''base_link''" 10000000000 example_externals "Time 10000000000"
        100000000 "Duration 0 100000000" empty_buffer old_trans False]
  by (simp add: relation_at_def empty_buffer_def example_externals_def Duration_def)

text \<open>
  C7. For every buffer, frame pair, time, tolerance and previous value of the output
  parameter, the call with \<open>silent = True\<close> and the call with \<open>silent = False\<close> return
  the same \<^verbatim>\<open>bool\<close>, leave the same transform in the output parameter and make the same
  queries to the buffer; they can differ only in the warnings.
\<close>

theorem lookupTransformSafe_silent:
  "ret (lookupTransformSafe ext buffer target_frame source_frame time duration
          target_frame_trans True) =
   ret (lookupTransformSafe ext buffer target_frame source_frame time duration
          target_frame_trans False) \<and>
   trans_out (lookupTransformSafe ext buffer target_frame source_frame time duration
          target_frame_trans True) =
   trans_out (lookupTransformSafe ext buffer target_frame source_frame time duration
          target_frame_trans False) \<and>
   queries (lookupTransformSafe ext buffer target_frame source_frame time duration
          target_frame_trans True) =
   queries (lookupTransformSafe ext buffer target_frame source_frame time duration
          target_frame_trans False)"
  by (simp add: lookupTransformSafe_def queries_def Let_def split: sum.splits)

text \<open>
  C8. The overload without a tolerance gives the same result (returned \<^verbatim>\<open>bool\<close>, output
  parameter and calls) as the full overload called with a duration of zero nanoseconds.
\<close>

theorem lookupTransformSafe_no_duration_zero:
  assumes "Duration_nanoseconds duration = 0"
  shows "lookupTransformSafe_no_duration ext buffer target_frame source_frame time
           target_frame_trans silent =
         lookupTransformSafe ext buffer target_frame source_frame time duration
           target_frame_trans silent"
proof -
  from assms have "duration = Duration 0 0"
    by (cases duration) (simp add: Duration_def)
  then show ?thesis
    by (simp add: lookupTransformSafe_no_duration_def)
qed

theorem lookupTransformSafe_no_duration_zero_witness:
  "Duration_nanoseconds (Duration_ns 0) = 0 \<and>
   lookupTransformSafe_no_duration example_externals odom_buffer ''odom'' ''base_link''
     (Time 10000000000) old_trans False =
   lookupTransformSafe example_externals odom_buffer ''odom'' ''base_link''
     (Time 10000000000) (Duration_ns 0) old_trans False \<and>
   ret (lookupTransformSafe_no_duration example_externals odom_buffer ''odom'' ''base_link''
     (Time 10000000000) old_trans False) = True"
  using lookupTransformSafe_no_duration_zero
    [of "Duration_ns 0" example_externals odom_buffer "''odom''" "''base_link''"
        "Time 10000000000" old_trans False]
  by (simp add: lookupTransformSafe_def odom_buffer_def example_externals_def TimePointZero_def)

text \<open>
  C10. Whenever \<^verbatim>\<open>lookupTransformSafe\<close> returns \<open>False\<close>, the two frames differ and the
  output parameter \<^verbatim>\<open>target_frame_trans\<close> holds the value it had before the call.
\<close>

theorem lookupTransformSafe_failure_keeps_output:
  assumes "\<not> ret (lookupTransformSafe ext buffer target_frame source_frame time duration
             target_frame_trans silent)"
  shows "target_frame \<noteq> source_frame \<and>
         trans_out (lookupTransformSafe ext buffer target_frame source_frame time duration
             target_frame_trans silent) = target_frame_trans"
  using assms
  by (auto simp add: lookupTransformSafe_def Let_def split: if_splits sum.splits)

theorem lookupTransformSafe_failure_keeps_output_witness:
  "\<not> ret (lookupTransformSafe example_externals empty_buffer ''odom'' ''base_link''
          (Time 10000000000) (Duration 0 100000000) old_trans False) \<and>
   trans_out (lookupTransformSafe example_externals empty_buffer ''odom'' ''base_link''
          (Time 10000000000) (Duration 0 100000000) old_trans False) = old_trans"
  using lookupTransformSafe_failure_keeps_output
    [of example_externals empty_buffer "''odom''" "''base_link''" "Time 10000000000"
        "Duration 0 100000000" old_trans False]
  by (simp add: lookupTransformSafe_def empty_buffer_def Let_def)

section \<open>Properties of the conversions\<close>

text \<open>
  On a state vector that lacks one of the six pose members, both conversions stop at the
  failed index assertion; \<open>has_pose_members\<close> is exactly the domain on which they return.
\<close>

lemma stateToTF_out_of_range:
  "\<not> has_pose_members idx state \<Longrightarrow> stateToTF ext idx state state_tf = None"
  by (auto simp add: has_pose_members_def stateToTF_def coeff_def)

lemma TFtoState_out_of_range:
  "\<not> has_pose_members idx state \<Longrightarrow> TFtoState ext idx state_tf state = None"
  by (auto simp add: has_pose_members_def TFtoState_def assign_coeff_def
      split: prod.splits Option.bind_splits)

text \<open>
  C6. For every state vector that has the six pose members, whatever their values,
  \<^verbatim>\<open>stateToTF\<close> succeeds: the translation of the transform is the vector of the X, Y and
  Z entries, and its rotation is set from the quaternion that \<^verbatim>\<open>setRPY\<close> builds from the
  Roll, Pitch and Yaw entries, passed in this order. No entry is checked against a range.
\<close>

theorem stateToTF_result:
  assumes "has_pose_members idx state"
  shows "stateToTF ext idx state state_tf =
     Some \<lparr>m_basis =
             Matrix3x3_setRotation ext
               (Quaternion_setRPY ext (state ! idx StateMemberRoll)
                  (state ! idx StateMemberPitch) (state ! idx StateMemberYaw)),
           m_origin =
             Vector3 (state ! idx StateMemberX) (state ! idx StateMemberY)
               (state ! idx StateMemberZ)\<rparr>"
  using assms
  by (cases state_tf)
    (simp add: has_pose_members_def stateToTF_def coeff_def setOrigin_def setRotation_def)

theorem stateToTF_result_witness:
  "has_pose_members example_idx example_state \<and>
   stateToTF example_externals example_idx example_state old_trans =
     Some \<lparr>m_basis = Matrix3x3 (Vector3 4 5 6) (Vector3 1 0 0) (Vector3 0 0 0),
           m_origin = Vector3 1 2 3\<rparr>"
  using stateToTF_result [of example_idx example_state example_externals old_trans]
  by (simp add: has_pose_members_def example_state_def example_externals_def)

lemma assign_coeff_Some:
  "i < length v \<Longrightarrow> assign_coeff v i a = Some (v[i := a])"
  by (simp add: assign_coeff_def)

text \<open>
  C9. For every transform and every state vector that has the six pose members,
  \<^verbatim>\<open>TFtoState\<close> returns a state vector of the same length in which every entry other than
  the X, Y, Z, Roll, Pitch and Yaw entries is the entry of the state vector given.
\<close>

theorem TFtoState_frame:
  assumes "has_pose_members idx state"
  shows "\<exists>state'. TFtoState ext idx state_tf state = Some state' \<and>
           length state' = length state \<and>
           (\<forall>i < length state. i \<notin> pose_indices idx \<longrightarrow> state' ! i = state ! i)"
  using assms
  by (simp add: has_pose_members_def TFtoState_def assign_coeff_Some pose_indices_def
      split: prod.splits)

theorem TFtoState_frame_witness:
  "has_pose_members example_idx example_state \<and>
   (\<exists>state'. TFtoState example_externals example_idx old_trans example_state = Some state' \<and>
      length state' = length example_state \<and>
      (\<forall>i < length example_state. i \<notin> pose_indices example_idx \<longrightarrow>
         state' ! i = example_state ! i)) \<and>
   TFtoState example_externals example_idx old_trans example_state =
     Some [7, 8, 9, 0, 1, 0, 7, 8, 9, 10, 11, 12, 13, 14, 15]"
  using TFtoState_frame [of example_idx example_state example_externals old_trans]
  by (simp add: has_pose_members_def example_state_def TFtoState_def assign_coeff_def
      getOrigin_def getRotation_def quatToRPY_def example_externals_def old_trans_def)

section \<open>The round trip through a transform\<close>







end
